theory Spec2Isabelle
  imports Main "HOL-Library.Sublist"
begin

section \<open>Console output and formatted strings\<close>

text \<open>
  Both scripts write diagnostics with \<^verbatim>\<open>print\<close>. The console is modelled as the list
  of the lines printed so far, passed through every function that prints and returned
  extended. Python strings are modelled as \<^typ>\<open>string\<close>.
\<close>

type_synonym stdout = "string list"

definition print :: "string \<Rightarrow> stdout \<Rightarrow> stdout" where
  "print line out = out @ [line]"

text \<open>
  An f-string is a sequence of literal pieces and replacement fields. Every field of the
  two scripts holds a \<^verbatim>\<open>str\<close> (or the description of an exception) with no
  format specification, so a field renders as its own text.
\<close>

datatype fpart = Lit string | Field string

text \<open>The apostrophe that the scripts put around an embedded request.\<close>

abbreviation apos :: string where
  "apos \<equiv> [CHR 0x27]"

fun render :: "fpart \<Rightarrow> string" where
  "render (Lit s) = s"
| "render (Field s) = s"

definition fstring :: "fpart list \<Rightarrow> string" where
  "fstring ps = concat (map render ps)"

section \<open>Tool functions\<close>

text \<open>
  \<^verbatim>\<open>chapter1/chapter01.py\<close>, lines 23 to 51. \<^verbatim>\<open>booking_handler\<close> and
  \<^verbatim>\<open>info_handler\<close> print a banner and return an f-string around the request;
  \<^verbatim>\<open>unclear_handler\<close> returns its f-string without printing.
\<close>

definition booking_handler :: "string \<Rightarrow> stdout \<Rightarrow> string \<times> stdout" where
  "booking_handler request out =
     (let out1 = print ''------- Booking Handler Called -------'' out
      in (fstring [Lit (''Booking action for '' @ apos), Field request,
                   Lit (apos @ '' has been simulated.'')], out1))"

definition info_handler :: "string \<Rightarrow> stdout \<Rightarrow> string \<times> stdout" where
  "info_handler request out =
     (let out1 = print ''------- Info Handler Called -------'' out
      in (fstring [Lit (''Information request for '' @ apos), Field request,
                   Lit (apos @ ''. Result: Simulated information retrieval.'')], out1))"

definition unclear_handler :: "string \<Rightarrow> stdout \<Rightarrow> string \<times> stdout" where
  "unclear_handler request out =
     (fstring [Lit (''Coordinator could not delegate request: '' @ apos), Field request,
               Lit (apos @ ''. Please clarify.'')], out)"

text \<open>\<^verbatim>\<open>chapter2/agent.py\<close>, lines 67 to 104.\<close>

definition technical_support_handler :: "string \<Rightarrow> stdout \<Rightarrow> string \<times> stdout" where
  "technical_support_handler issue out =
     (let out1 = print ''------- Technical Support Handler Called -------'' out
      in (fstring [Lit (''Technical support for '' @ apos), Field issue,
                   Lit (apos @ '': Troubleshooting steps have been provided. Issue logged for tracking.'')],
          out1))"

definition billing_handler :: "string \<Rightarrow> stdout \<Rightarrow> string \<times> stdout" where
  "billing_handler inquiry out =
     (let out1 = print ''------- Billing Handler Called -------'' out
      in (fstring [Lit (''Billing inquiry for '' @ apos), Field inquiry,
                   Lit (apos @ '': Account information retrieved. Payment status confirmed.'')], out1))"

definition product_info_handler :: "string \<Rightarrow> stdout \<Rightarrow> string \<times> stdout" where
  "product_info_handler question out =
     (let out1 = print ''------- Product Info Handler Called -------'' out
      in (fstring [Lit (''Product information for '' @ apos), Field question,
                   Lit (apos @ '': Detailed product specifications and features provided.'')], out1))"

section \<open>The delegation collaborator\<close>

text \<open>
  The runner, its session service and the events it yields belong to an external
  library. They are taken as parameters, with exactly the parts the two scripts read.

  A \<^verbatim>\<open>Part\<close> carries an optional text. A \<^verbatim>\<open>Content\<close> carries an optional
  list of parts and a role; the scripts also probe it for an attribute \<^verbatim>\<open>text\<close>
  with \<^verbatim>\<open>hasattr\<close>, so \<open>text_attr\<close> is \<open>None\<close> when the attribute is absent,
  \<open>Some None\<close> when it holds \<^verbatim>\<open>None\<close> and \<open>Some (Some t)\<close> when it holds a string.
  An \<^verbatim>\<open>Event\<close> answers \<^verbatim>\<open>is_final_response()\<close> and carries an optional content.
\<close>

record Part =
  part_text :: "string option"

record Content =
  role :: "string option"
  parts :: "Part list option"
  text_attr :: "string option option"

record Event =
  is_final_response :: bool
  content :: "Content option"

text \<open>
  What a Python \<^verbatim>\<open>raise\<close> carries: an instance of \<^verbatim>\<open>Exception\<close>, or an instance
  of \<^verbatim>\<open>BaseException\<close> outside \<^verbatim>\<open>Exception\<close> (\<^verbatim>\<open>KeyboardInterrupt\<close>,
  \<^verbatim>\<open>SystemExit\<close>, a cancellation). The string is what \<^verbatim>\<open>str(e)\<close> gives.
\<close>

datatype exn = Exception string | BaseException string

text \<open>
  \<^verbatim>\<open>runner.run(...)\<close> is a generator: asked for its next item it yields an event, ends,
  or raises. \<open>yielded\<close> lists the events it would yield if it were run to its end.
\<close>

datatype event_stream = Done | Yield Event event_stream | Raise exn

text \<open>
  \<open>create_session\<close> takes the application name, the user id and the session id, and gives
  \<open>None\<close> when the session was created and \<open>Some e\<close> when the call raises \<open>e\<close>.
  \<open>run\<close> takes the user id, the session id and the new message.
\<close>

record InMemoryRunner =
  app_name :: string
  create_session :: "string \<Rightarrow> string \<Rightarrow> string \<Rightarrow> exn option"
  run :: "string \<Rightarrow> string \<Rightarrow> Content \<Rightarrow> event_stream"

section \<open>Python values and control flow\<close>

text \<open>Neither coroutine has a return annotation: it gives a string or \<^verbatim>\<open>None\<close>.\<close>

datatype pyval = PyNone | PyStr string

text \<open>Truthiness of an optional string: \<^verbatim>\<open>None\<close> and the empty string are false.\<close>

fun truthy :: "string option \<Rightarrow> bool" where
  "truthy None = False"
| "truthy (Some s) = (s \<noteq> [])"

text \<open>\<^verbatim>\<open>sep.join(xs)\<close>.\<close>

fun join :: "string \<Rightarrow> string list \<Rightarrow> string" where
  "join sep [] = []"
| "join sep [x] = x"
| "join sep (x # y # ys) = x @ sep @ join sep (y # ys)"

text \<open>
  One execution of a loop body ends by reaching its end (the loop goes on to the next
  item), by \<^verbatim>\<open>break\<close> or by \<^verbatim>\<open>return\<close>. A \<^verbatim>\<open>for\<close> loop over a generator ends when
  the generator is exhausted, when the body breaks or returns, or when the generator
  raises. Besides the way it ended and the frame it leaves, \<open>for_loop\<close> gives the events
  that were bound to the loop variable, in order.
\<close>

fun yielded :: "event_stream \<Rightarrow> Event list" where
  "yielded Done = []"
| "yielded (Raise e) = []"
| "yielded (Yield ev rest) = ev # yielded rest"

datatype signal = Next | Break | Return pyval

datatype loop_exit = Exhausted | Broke | LoopReturned pyval | LoopRaised exn

record frame =
  final_result :: string
  console :: stdout

fun for_loop ::
  "(Event \<Rightarrow> frame \<Rightarrow> signal \<times> frame) \<Rightarrow> event_stream \<Rightarrow> frame
     \<Rightarrow> loop_exit \<times> frame \<times> Event list" where
  "for_loop body Done fr = (Exhausted, fr, [])"
| "for_loop body (Raise e) fr = (LoopRaised e, fr, [])"
| "for_loop body (Yield ev rest) fr =
     (case body ev fr of
        (Next, fr') \<Rightarrow>
          (case for_loop body rest fr' of (x, fr'', evs) \<Rightarrow> (x, fr'', ev # evs))
      | (Break, fr') \<Rightarrow> (Broke, fr', [ev])
      | (Return v, fr') \<Rightarrow> (LoopReturned v, fr', [ev]))"

section \<open>The request runners\<close>

text \<open>
  \<^verbatim>\<open>run_coordinator\<close> (chapter 1, lines 93 to 132) and \<^verbatim>\<open>run_support_coordinator\<close>
  (chapter 2, lines 164 to 203) are the same code up to the three texts they print.
\<close>

record labels =
  banner :: "string \<Rightarrow> string"
  response_line :: "string \<Rightarrow> string"
  error_line :: "string \<Rightarrow> string"

text \<open>
  Lines 120 to 125 (191 to 196): the text of a final response. The \<^verbatim>\<open>text\<close>
  attribute wins when present and non-empty; otherwise, when the list of parts is
  non-empty, the non-empty part texts joined by a blank; otherwise \<open>final_result\<close> keeps
  its value.
\<close>

definition extract_text :: "Content \<Rightarrow> string \<Rightarrow> string" where
  "extract_text c current =
     (if (case text_attr c of Some t \<Rightarrow> truthy t | None \<Rightarrow> False)
      then the (the (text_attr c))
      else if (case parts c of Some ps \<Rightarrow> ps \<noteq> [] | None \<Rightarrow> False)
      then (let text_parts = [the (part_text p). p \<leftarrow> the (parts c), truthy (part_text p)]
            in join '' '' text_parts)
      else current)"

text \<open>
  Lines 117 to 129 (188 to 200): the body of the loop. A final response with a content
  (a content object is truthy, \<^verbatim>\<open>None\<close> is not) sets \<open>final_result\<close> and breaks;
  every other event reaches the \<^verbatim>\<open>print\<close> and the \<^verbatim>\<open>return final_result\<close> that
  stand inside the loop.
\<close>

definition loop_body :: "labels \<Rightarrow> Event \<Rightarrow> frame \<Rightarrow> signal \<times> frame" where
  "loop_body lbl event fr =
     (if is_final_response event \<and> content event \<noteq> None
      then (Break, fr\<lparr>final_result := extract_text (the (content event)) (final_result fr)\<rparr>)
      else (Return (PyStr (final_result fr)),
            fr\<lparr>console := print (response_line lbl (final_result fr)) (console fr)\<rparr>))"

text \<open>
  Lines 112 to 115 (183 to 186): the message handed to the runner, a content of role
  \<^verbatim>\<open>user\<close> whose only part is the request.
\<close>

definition new_message :: "string \<Rightarrow> Content" where
  "new_message request =
     \<lparr>role = Some ''user'', parts = Some [\<lparr>part_text = Some request\<rparr>], text_attr = None\<rparr>"

text \<open>
  Lines 101 to 129 (172 to 200): the \<^verbatim>\<open>try\<close> block. It ends by raising, by the
  \<^verbatim>\<open>return\<close> inside the loop, or by running to its end (after a \<^verbatim>\<open>break\<close>, or when
  the generator yields nothing).
\<close>

datatype try_exit = Completed | Returned pyval | Raised exn

definition try_block ::
  "labels \<Rightarrow> InMemoryRunner \<Rightarrow> string \<Rightarrow> string \<Rightarrow> frame
     \<Rightarrow> try_exit \<times> frame \<times> Event list" where
  "try_block lbl runner session_id request fr =
     (let user_id = ''user_123'' in
      case create_session runner (app_name runner) user_id session_id of
        Some e \<Rightarrow> (Raised e, fr, [])
      | None \<Rightarrow>
          (case for_loop (loop_body lbl)
                  (run runner user_id session_id (new_message request)) fr of
             (Exhausted, fr', evs) \<Rightarrow> (Completed, fr', evs)
           | (Broke, fr', evs) \<Rightarrow> (Completed, fr', evs)
           | (LoopReturned v, fr', evs) \<Rightarrow> (Returned v, fr', evs)
           | (LoopRaised e, fr', evs) \<Rightarrow> (Raised e, fr', evs)))"

text \<open>
  The whole coroutine. \<open>session_id\<close> stands for \<^verbatim>\<open>str(uuid.uuid4())\<close>. The handler
  \<^verbatim>\<open>except Exception as e\<close> turns an \<^verbatim>\<open>Exception\<close> into the returned message; any
  other raise leaves the function. A \<^verbatim>\<open>try\<close> block that runs to its end is followed by
  no statement, so the function returns \<^verbatim>\<open>None\<close>.
\<close>

datatype outcome = Returns pyval | Propagates exn

record run_result =
  result :: outcome
  printed :: stdout
  examined :: "Event list"

definition run_request ::
  "labels \<Rightarrow> InMemoryRunner \<Rightarrow> string \<Rightarrow> string \<Rightarrow> stdout \<Rightarrow> run_result" where
  "run_request lbl runner session_id request out =
     (let out1 = print (banner lbl request) out
      in case try_block lbl runner session_id request
                \<lparr>final_result = '''', console = out1\<rparr> of
           (Returned v, fr, evs) \<Rightarrow>
             \<lparr>result = Returns v, printed = console fr, examined = evs\<rparr>
         | (Completed, fr, evs) \<Rightarrow>
             \<lparr>result = Returns PyNone, printed = console fr, examined = evs\<rparr>
         | (Raised (Exception e), fr, evs) \<Rightarrow>
             \<lparr>result = Returns (PyStr (fstring
                  [Lit ''An error occurred while processing your request: '', Field e])),
              printed = print (error_line lbl e) (console fr), examined = evs\<rparr>
         | (Raised (BaseException e), fr, evs) \<Rightarrow>
             \<lparr>result = Propagates (BaseException e), printed = console fr, examined = evs\<rparr>)"

definition chapter1_labels :: labels where
  "chapter1_labels =
     \<lparr>banner = (\<lambda>request. fstring
         [Lit ([CHR 0x0A] @ '' --- Running Coordinator for request: '' @ apos), Field request,
          Lit (apos @ '' --- '')]),
      response_line = (\<lambda>final_result. fstring
         [Lit ''Coordinator Final Response: '', Field final_result]),
      error_line = (\<lambda>e. fstring
         [Lit ''An error occurred while processing the your request: '', Field e])\<rparr>"

definition chapter2_labels :: labels where
  "chapter2_labels =
     \<lparr>banner = (\<lambda>request. fstring
         [Lit ([CHR 0x0A] @ '' --- Running Support Coordinator for request: '' @ apos),
          Field request, Lit (apos @ '' --- '')]),
      response_line = (\<lambda>final_result. fstring
         [Lit ''Support Coordinator Final Response: '', Field final_result]),
      error_line = (\<lambda>e. fstring
         [Lit ''An error occurred while processing the request: '', Field e])\<rparr>"

definition run_coordinator ::
  "InMemoryRunner \<Rightarrow> string \<Rightarrow> string \<Rightarrow> stdout \<Rightarrow> run_result" where
  "run_coordinator runner session_id request out =
     run_request chapter1_labels runner session_id request out"

definition run_support_coordinator ::
  "InMemoryRunner \<Rightarrow> string \<Rightarrow> string \<Rightarrow> stdout \<Rightarrow> run_result" where
  "run_support_coordinator runner session_id request out =
     run_request chapter2_labels runner session_id request out"

section \<open>The chapter 1 configuration\<close>

text \<open>
  Lines 54 to 87 of \<^verbatim>\<open>chapter1/chapter01.py\<close>. A \<^verbatim>\<open>FunctionTool\<close> wraps one
  function; an \<^verbatim>\<open>Agent\<close> has a name, a model, an instruction, a description, a list of
  tools and a list of sub-agents (the last four empty when the constructor call leaves
  them out).
\<close>

datatype FunctionTool = FunctionTool (func: "string \<Rightarrow> stdout \<Rightarrow> string \<times> stdout")

datatype Agent =
  Agent (name: string) (model: string) (instruction: string) (description: string)
    (tools: "FunctionTool list") (sub_agents: "Agent list")

definition booking_tool :: FunctionTool where
  "booking_tool = FunctionTool booking_handler"

definition info_tool :: FunctionTool where
  "info_tool = FunctionTool info_handler"

definition booking_agent :: Agent where
  "booking_agent =
     Agent ''Booker'' ''gemini-2.5-flash'' ''''
       (''A specialist agent that handles all flights '' @ [CHR 0x0A] @
        ''                and hotel booking requests by calling the booking tool.'')
       [booking_tool] []"

definition info_agent :: Agent where
  "info_agent =
     Agent ''Info'' ''gemini-2.5-flash'' ''''
       (''A specialist agent that handles all general information '' @ [CHR 0x0A] @
        ''                and answers user questions by calling the info tool.'')
       [info_tool] []"

definition root_agent :: Agent where
  "root_agent =
     Agent ''Coordinator'' ''gemini-2.5-flash''
       (''You are the main coordinator. Your only task is to analyze incoming user requests '' @
        ''and delegate them to the appropriate specialist agents. Do not try to answer the user directly. '' @
        [CHR 0x0A] @
        ''- For any requests related to booking flights or hotels, delegate to the 'Booker' agent. '' @
        [CHR 0x0A] @ '' '' @
        ''- For all other general information questions, delegate to the 'Info' agent. '' @
        [CHR 0x0A])
       ''A coordinator that routes user requests to the correct specialist agent.''
       [] [booking_agent, info_agent]"

text \<open>
  The agents of a configuration are its root and, recursively, the sub-agents; its tools
  are the tools of all of them.
\<close>

fun agents_of :: "Agent \<Rightarrow> Agent list" where
  "agents_of (Agent n m i d ts subs) = Agent n m i d ts subs # concat (map agents_of subs)"

definition tools_of :: "Agent \<Rightarrow> FunctionTool list" where
  "tools_of a = concat (map tools (agents_of a))"

section \<open>Properties of the tool functions\<close>

lemmas handler_defs =
  booking_handler_def info_handler_def unclear_handler_def
  technical_support_handler_def billing_handler_def product_info_handler_def

lemma fstring_three: "fstring [Lit a, Field s, Lit b] = a @ s @ b"
  by (simp add: fstring_def)

lemma sublist_between: "sublist s (a @ s @ b)"
  unfolding sublist_def by blast

text \<open>
  Claim C4. For every input string \<open>s\<close>, each of \<^verbatim>\<open>booking_handler\<close>,
  \<^verbatim>\<open>info_handler\<close>, \<^verbatim>\<open>technical_support_handler\<close>, \<^verbatim>\<open>billing_handler\<close> and
  \<^verbatim>\<open>product_info_handler\<close> returns its fixed opening text, then \<open>s\<close> unchanged
  between apostrophes, then its fixed closing text; in particular \<open>s\<close> occurs in the
  result as a contiguous piece.
\<close>

theorem handlers_embed_request:
  "fst (booking_handler s out) =
     ''Booking action for '' @ apos @ s @ apos @ '' has been simulated.''
   \<and> fst (info_handler s out) =
     ''Information request for '' @ apos @ s @ apos @
     ''. Result: Simulated information retrieval.''
   \<and> fst (technical_support_handler s out) =
     ''Technical support for '' @ apos @ s @ apos @
     '': Troubleshooting steps have been provided. Issue logged for tracking.''
   \<and> fst (billing_handler s out) =
     ''Billing inquiry for '' @ apos @ s @ apos @
     '': Account information retrieved. Payment status confirmed.''
   \<and> fst (product_info_handler s out) =
     ''Product information for '' @ apos @ s @ apos @
     '': Detailed product specifications and features provided.''
   \<and> sublist s (fst (booking_handler s out))
   \<and> sublist s (fst (info_handler s out))
   \<and> sublist s (fst (technical_support_handler s out))
   \<and> sublist s (fst (billing_handler s out))
   \<and> sublist s (fst (product_info_handler s out))"
proof -
  have template:
    "fst (booking_handler s out) =
       ''Booking action for '' @ apos @ s @ apos @ '' has been simulated.''"
    "fst (info_handler s out) =
       ''Information request for '' @ apos @ s @ apos @
       ''. Result: Simulated information retrieval.''"
    "fst (technical_support_handler s out) =
       ''Technical support for '' @ apos @ s @ apos @
       '': Troubleshooting steps have been provided. Issue logged for tracking.''"
    "fst (billing_handler s out) =
       ''Billing inquiry for '' @ apos @ s @ apos @
       '': Account information retrieved. Payment status confirmed.''"
    "fst (product_info_handler s out) =
       ''Product information for '' @ apos @ s @ apos @
       '': Detailed product specifications and features provided.''"
    by (simp_all add: handler_defs Let_def fstring_def)
  have inside:
    "sublist s (fst (booking_handler s out))"
    "sublist s (fst (info_handler s out))"
    "sublist s (fst (technical_support_handler s out))"
    "sublist s (fst (billing_handler s out))"
    "sublist s (fst (product_info_handler s out))"
    unfolding handler_defs Let_def fst_conv fstring_three by (rule sublist_between)+
  from template inside show ?thesis by (intro conjI)
qed

text \<open>
  Claim C5. \<^verbatim>\<open>booking_handler\<close> applied to \<^verbatim>\<open>Book me a hotel in Paris.\<close> returns
  exactly \<^verbatim>\<open>Booking action for 'Book me a hotel in Paris.' has been simulated.\<close>,
  whatever has been printed before.
\<close>

theorem booking_example:
  "fst (booking_handler ''Book me a hotel in Paris.'' out) =
     ''Booking action for 'Book me a hotel in Paris.' has been simulated.''"
  by (simp add: booking_handler_def fstring_def)

text \<open>
  Claim C6. \<^verbatim>\<open>billing_handler\<close> applied to
  \<^verbatim>\<open>What are the payment options available?\<close> returns exactly the billing template
  around that question, whatever has been printed before.
\<close>

theorem billing_example:
  "fst (billing_handler ''What are the payment options available?'' out) =
     ''Billing inquiry for 'What are the payment options available?': Account information retrieved. Payment status confirmed.''"
  by (simp add: billing_handler_def fstring_def)

text \<open>
  Claim C7. Every stub handler is deterministic and total on strings. The returned string
  does not depend on the state of the console the call starts from, so two calls with the
  same input return the same string, and so does a second call made right after the
  first one (on the console the first call left). No handler has a failing branch: the
  body formats a \<^verbatim>\<open>str\<close> and returns, so the model gives a string for every input.
  The only effect is the banner line appended to the console.
\<close>

theorem handlers_deterministic:
  "fst (booking_handler s out) = fst (booking_handler s out')
   \<and> fst (booking_handler s (snd (booking_handler s out))) = fst (booking_handler s out)
   \<and> fst (info_handler s out) = fst (info_handler s out')
   \<and> fst (info_handler s (snd (info_handler s out))) = fst (info_handler s out)
   \<and> fst (unclear_handler s out) = fst (unclear_handler s out')
   \<and> fst (unclear_handler s (snd (unclear_handler s out))) = fst (unclear_handler s out)
   \<and> fst (technical_support_handler s out) = fst (technical_support_handler s out')
   \<and> fst (technical_support_handler s (snd (technical_support_handler s out))) =
       fst (technical_support_handler s out)
   \<and> fst (billing_handler s out) = fst (billing_handler s out')
   \<and> fst (billing_handler s (snd (billing_handler s out))) = fst (billing_handler s out)
   \<and> fst (product_info_handler s out) = fst (product_info_handler s out')
   \<and> fst (product_info_handler s (snd (product_info_handler s out))) =
       fst (product_info_handler s out)"
  by (simp add: handler_defs Let_def)

section \<open>Properties of the event loop\<close>

lemma loop_body_never_Next: "fst (loop_body lbl ev fr) \<noteq> Next"
  by (simp add: loop_body_def)

lemma for_loop_first_event:
  "for_loop (loop_body lbl) (Yield ev rest) fr =
     (if is_final_response ev \<and> content ev \<noteq> None
      then (Broke, fr\<lparr>final_result := extract_text (the (content ev)) (final_result fr)\<rparr>, [ev])
      else (LoopReturned (PyStr (final_result fr)),
            fr\<lparr>console := print (response_line lbl (final_result fr)) (console fr)\<rparr>, [ev]))"
  by (simp add: loop_body_def)

text \<open>
  The loop combinator does iterate: under a body that always reaches its end, every
  yielded event is bound to the loop variable.
\<close>

lemma for_loop_Next_examines_all:
  "snd (snd (for_loop (\<lambda>ev fr. (Next, fr)) s fr)) = yielded s"
proof (induction s arbitrary: fr)
  case (Yield ev rest)
  obtain x fr' evs where run: "for_loop (\<lambda>ev fr. (Next, fr)) rest fr = (x, fr', evs)"
    by (metis prod_cases3)
  with Yield [of fr] have "evs = yielded rest" by simp
  with run show ?case by simp
qed simp_all

lemma for_loop_examined: "snd (snd (for_loop (loop_body lbl) s fr)) = take 1 (yielded s)"
  by (cases s) (simp_all add: for_loop_first_event del: for_loop.simps(3))

section \<open>Properties of the request runners\<close>

lemma run_request_session_raises:
  "create_session runner (app_name runner) ''user_123'' sid = Some (Exception d) \<Longrightarrow>
   run_request lbl runner sid req out =
     \<lparr>result = Returns (PyStr (''An error occurred while processing your request: '' @ d)),
      printed = out @ [banner lbl req, error_line lbl d], examined = []\<rparr>"
  by (simp add: run_request_def try_block_def print_def fstring_def)

lemma run_request_stream_raises:
  "create_session runner (app_name runner) ''user_123'' sid = None \<Longrightarrow>
   run runner ''user_123'' sid (new_message req) = Raise (Exception d) \<Longrightarrow>
   run_request lbl runner sid req out =
     \<lparr>result = Returns (PyStr (''An error occurred while processing your request: '' @ d)),
      printed = out @ [banner lbl req, error_line lbl d], examined = []\<rparr>"
  by (simp add: run_request_def try_block_def print_def fstring_def)

text \<open>A raise outside \<^verbatim>\<open>Exception\<close> is not caught by the handler.\<close>

lemma run_request_base_exception:
  "create_session runner (app_name runner) ''user_123'' sid = Some (BaseException d) \<Longrightarrow>
   result (run_request lbl runner sid req out) = Propagates (BaseException d)"
  by (simp add: run_request_def try_block_def)

lemma run_request_no_events:
  "create_session runner (app_name runner) ''user_123'' sid = None \<Longrightarrow>
   run runner ''user_123'' sid (new_message req) = Done \<Longrightarrow>
   run_request lbl runner sid req out =
     \<lparr>result = Returns PyNone, printed = out @ [banner lbl req], examined = []\<rparr>"
  by (simp add: run_request_def try_block_def print_def)

lemma run_request_first_final:
  "create_session runner (app_name runner) ''user_123'' sid = None \<Longrightarrow>
   run runner ''user_123'' sid (new_message req) = Yield ev rest \<Longrightarrow>
   is_final_response ev \<Longrightarrow> content ev \<noteq> None \<Longrightarrow>
   run_request lbl runner sid req out =
     \<lparr>result = Returns PyNone, printed = out @ [banner lbl req], examined = [ev]\<rparr>"
  by (auto simp add: run_request_def try_block_def print_def Let_def for_loop_first_event
      simp del: for_loop.simps(3))

lemma run_request_first_other:
  "create_session runner (app_name runner) ''user_123'' sid = None \<Longrightarrow>
   run runner ''user_123'' sid (new_message req) = Yield ev rest \<Longrightarrow>
   \<not> (is_final_response ev \<and> content ev \<noteq> None) \<Longrightarrow>
   run_request lbl runner sid req out =
     \<lparr>result = Returns (PyStr ''''),
      printed = out @ [banner lbl req, response_line lbl ''''], examined = [ev]\<rparr>"
  by (auto simp add: run_request_def try_block_def print_def Let_def for_loop_first_event
      simp del: for_loop.simps(3))

lemma run_request_examined: "length (examined (run_request lbl runner sid req out)) \<le> 1"
proof (cases "create_session runner (app_name runner) ''user_123'' sid")
  case None
  obtain x fr evs where loop:
    "for_loop (loop_body lbl) (run runner ''user_123'' sid (new_message req))
       \<lparr>final_result = '''', console = print (banner lbl req) out\<rparr> = (x, fr, evs)"
    by (metis prod_cases3)
  from for_loop_examined [of lbl "run runner ''user_123'' sid (new_message req)"
      "\<lparr>final_result = '''', console = print (banner lbl req) out\<rparr>"] loop
  have "length evs \<le> 1" by simp
  with None loop show ?thesis
    by (cases x) (simp_all add: run_request_def try_block_def Let_def split: exn.splits)
next
  case (Some e)
  then show ?thesis
    by (cases e) (simp_all add: run_request_def try_block_def Let_def)
qed

text \<open>
  Claim C8. In both runners the loop over the events runs at most one iteration. The body
  never reaches its end: on a final response with a content it breaks, on any other
  event it returns \<open>final_result\<close>. So the events bound to the loop variable are the
  first yielded event alone (none when the generator yields nothing), the loop's result
  does not depend on what the generator would yield after its first event, and a run of
  either runner examines at most one event.
\<close>

theorem loop_runs_at_most_one_iteration:
  "fst (loop_body lbl ev fr) =
     (if is_final_response ev \<and> content ev \<noteq> None then Break
      else Return (PyStr (final_result fr)))
   \<and> snd (snd (for_loop (loop_body lbl) s fr)) = take 1 (yielded s)
   \<and> for_loop (loop_body lbl) (Yield ev rest) fr = for_loop (loop_body lbl) (Yield ev Done) fr
   \<and> length (examined (run_coordinator runner sid req out)) \<le> 1
   \<and> length (examined (run_support_coordinator runner sid req out)) \<le> 1"
proof (intro conjI)
  show "fst (loop_body lbl ev fr) =
     (if is_final_response ev \<and> content ev \<noteq> None then Break
      else Return (PyStr (final_result fr)))"
    by (simp add: loop_body_def)
  show "snd (snd (for_loop (loop_body lbl) s fr)) = take 1 (yielded s)"
    by (rule for_loop_examined)
  show "for_loop (loop_body lbl) (Yield ev rest) fr = for_loop (loop_body lbl) (Yield ev Done) fr"
    by (simp only: for_loop_first_event)
  show "length (examined (run_coordinator runner sid req out)) \<le> 1"
    unfolding run_coordinator_def by (rule run_request_examined)
  show "length (examined (run_support_coordinator runner sid req out)) \<le> 1"
    unfolding run_support_coordinator_def by (rule run_request_examined)
qed

text \<open>
  Claim C3. When the collaborator raises an \<^verbatim>\<open>Exception\<close> whose description is \<open>d\<close>,
  either from the creation of the session or from the generator when the loop asks for
  its first item, both runners return (and do not propagate) the string
  \<^verbatim>\<open>An error occurred while processing your request: \<close> followed by \<open>d\<close>. These are
  the only two places where a raise of the collaborator can reach the runner: after a
  first event the generator is never resumed.
\<close>

theorem exception_becomes_error_string:
  assumes "create_session runner (app_name runner) ''user_123'' sid = Some (Exception d)
           \<or> (create_session runner (app_name runner) ''user_123'' sid = None
              \<and> run runner ''user_123'' sid (new_message req) = Raise (Exception d))"
  shows "result (run_coordinator runner sid req out) =
           Returns (PyStr (''An error occurred while processing your request: '' @ d))
         \<and> result (run_support_coordinator runner sid req out) =
           Returns (PyStr (''An error occurred while processing your request: '' @ d))"
  using assms unfolding run_coordinator_def run_support_coordinator_def
  by (auto simp add: run_request_session_raises run_request_stream_raises)

theorem exception_becomes_error_string_witness:
  "result (run_coordinator
      \<lparr>app_name = ''routing_app'',
       create_session = (\<lambda>app user session. Some (Exception ''quota exceeded'')),
       run = (\<lambda>user session message. Done)\<rparr> ''s1'' ''Book me a hotel in Paris.'' []) =
     Returns (PyStr ''An error occurred while processing your request: quota exceeded'')
   \<and> result (run_support_coordinator
      \<lparr>app_name = ''support_app'',
       create_session = (\<lambda>app user session. None),
       run = (\<lambda>user session message. Raise (Exception ''model unavailable''))\<rparr>
      ''s2'' ''My payment failed. What should I do?'' []) =
     Returns (PyStr ''An error occurred while processing your request: model unavailable'')"
  using exception_becomes_error_string
      [of "\<lparr>app_name = ''routing_app'',
             create_session = (\<lambda>app user session. Some (Exception ''quota exceeded'')),
             run = (\<lambda>user session message. Done)\<rparr>"
          "''s1''" "''quota exceeded''" "''Book me a hotel in Paris.''" "[]"]
        exception_becomes_error_string
      [of "\<lparr>app_name = ''support_app'',
             create_session = (\<lambda>app user session. None),
             run = (\<lambda>user session message. Raise (Exception ''model unavailable''))\<rparr>"
          "''s2''" "''model unavailable''" "''My payment failed. What should I do?''" "[]"]
  by simp

text \<open>
  Claim C9. When the session is created and the first event the generator yields is not
  a final response with a content, both runners return the empty string and examine
  that event only, whatever the generator would yield afterwards (a final response
  carrying text included).
\<close>

theorem first_event_not_final_returns_empty:
  assumes "create_session runner (app_name runner) ''user_123'' sid = None"
    and "run runner ''user_123'' sid (new_message req) = Yield ev rest"
    and "\<not> (is_final_response ev \<and> content ev \<noteq> None)"
  shows "result (run_coordinator runner sid req out) = Returns (PyStr '''')
         \<and> examined (run_coordinator runner sid req out) = [ev]
         \<and> result (run_support_coordinator runner sid req out) = Returns (PyStr '''')
         \<and> examined (run_support_coordinator runner sid req out) = [ev]"
  unfolding run_coordinator_def run_support_coordinator_def
  by (simp add: run_request_first_other [OF assms])

theorem first_event_not_final_returns_empty_witness:
  "result (run_coordinator
      \<lparr>app_name = ''routing_app'',
       create_session = (\<lambda>app user session. None),
       run = (\<lambda>user session message.
         Yield \<lparr>is_final_response = False,
                content = Some \<lparr>role = Some ''model'', parts = Some [\<lparr>part_text = None\<rparr>],
                                text_attr = None\<rparr>\<rparr>
           (Yield \<lparr>is_final_response = True,
                   content = Some \<lparr>role = Some ''model'',
                                   parts = Some [\<lparr>part_text = Some ''Mount Everest.''\<rparr>],
                                   text_attr = None\<rparr>\<rparr>
              Done))\<rparr>
      ''s1'' ''What is the highest mountain in the world?'' []) = Returns (PyStr '''')"
  using first_event_not_final_returns_empty
      [of "\<lparr>app_name = ''routing_app'',
             create_session = (\<lambda>app user session. None),
             run = (\<lambda>user session message.
               Yield \<lparr>is_final_response = False,
                      content = Some \<lparr>role = Some ''model'', parts = Some [\<lparr>part_text = None\<rparr>],
                                      text_attr = None\<rparr>\<rparr>
                 (Yield \<lparr>is_final_response = True,
                         content = Some \<lparr>role = Some ''model'',
                                         parts = Some [\<lparr>part_text = Some ''Mount Everest.''\<rparr>],
                                         text_attr = None\<rparr>\<rparr>
                    Done))\<rparr>"
          "''s1''" "''What is the highest mountain in the world?''" _ _ "[]"]
  by simp

text \<open>
  What a runner can give back: \<^verbatim>\<open>None\<close>, the empty string, the error message, or a
  propagated raise. The text of a response is never among them.
\<close>

lemma run_request_result_shape:
  "result (run_request lbl runner sid req out) = Returns PyNone
   \<or> result (run_request lbl runner sid req out) = Returns (PyStr '''')
   \<or> (\<exists>d. result (run_request lbl runner sid req out) =
          Returns (PyStr (''An error occurred while processing your request: '' @ d)))
   \<or> (\<exists>d. result (run_request lbl runner sid req out) = Propagates (BaseException d))"
proof (cases "create_session runner (app_name runner) ''user_123'' sid")
  case (Some e)
  then show ?thesis
    by (cases e) (simp_all add: run_request_def try_block_def fstring_def)
next
  case None
  show ?thesis
  proof (cases "run runner ''user_123'' sid (new_message req)")
    case Done
    with None show ?thesis by (simp add: run_request_no_events)
  next
    case (Raise e)
    with None show ?thesis
      by (cases e) (simp_all add: run_request_def try_block_def fstring_def)
  next
    case (Yield ev rest)
    with None show ?thesis
      by (cases "is_final_response ev \<and> content ev \<noteq> None")
        (simp_all add: run_request_first_final run_request_first_other)
  qed
qed

text \<open>
  Claim C1, evaluated where the code departs from it. The generator yields one final
  response whose only part carries a text. The \<^verbatim>\<open>try\<close> block ends with that text in
  \<open>final_result\<close>, but the \<^verbatim>\<open>break\<close> leaves the loop past the only
  \<^verbatim>\<open>return final_result\<close>, and both runners return \<^verbatim>\<open>None\<close>.
\<close>

theorem final_response_text_is_lost:
  "result (run_coordinator
      \<lparr>app_name = ''routing_app'',
       create_session = (\<lambda>app user session. None),
       run = (\<lambda>user session message.
         Yield \<lparr>is_final_response = True,
                content = Some \<lparr>role = Some ''model'',
                                parts = Some [\<lparr>part_text = Some ''Your hotel is booked.''\<rparr>],
                                text_attr = None\<rparr>\<rparr>
           Done)\<rparr>
      ''s1'' ''Book me a hotel in Paris.'' []) = Returns PyNone
   \<and> final_result (fst (snd (try_block chapter1_labels
      \<lparr>app_name = ''routing_app'',
       create_session = (\<lambda>app user session. None),
       run = (\<lambda>user session message.
         Yield \<lparr>is_final_response = True,
                content = Some \<lparr>role = Some ''model'',
                                parts = Some [\<lparr>part_text = Some ''Your hotel is booked.''\<rparr>],
                                text_attr = None\<rparr>\<rparr>
           Done)\<rparr>
      ''s1'' ''Book me a hotel in Paris.'' \<lparr>final_result = '''', console = []\<rparr>)))
     = ''Your hotel is booked.''
   \<and> result (run_support_coordinator
      \<lparr>app_name = ''support_app'',
       create_session = (\<lambda>app user session. None),
       run = (\<lambda>user session message.
         Yield \<lparr>is_final_response = True,
                content = Some \<lparr>role = Some ''model'',
                                parts = Some [\<lparr>part_text = Some ''Card or bank transfer.''\<rparr>],
                                text_attr = None\<rparr>\<rparr>
           Done)\<rparr>
      ''s2'' ''What are the payment options available?'' []) = Returns PyNone"
  by (simp add: run_coordinator_def run_support_coordinator_def run_request_first_final
      try_block_def loop_body_def extract_text_def)

text \<open>
  Claim C2, evaluated where the code departs from it. When the generator yields no event
  at all, or when its first event is a final response whose content carries no text, no
  event is a final response carrying text; the loop ends without reaching the
  \<^verbatim>\<open>return final_result\<close> inside it and the runners return \<^verbatim>\<open>None\<close>, not the
  empty string.
\<close>

theorem no_event_returns_None:
  "result (run_coordinator
      \<lparr>app_name = ''routing_app'',
       create_session = (\<lambda>app user session. None),
       run = (\<lambda>user session message. Done)\<rparr>
      ''s1'' ''Tell me a random fact.'' []) = Returns PyNone
   \<and> result (run_support_coordinator
      \<lparr>app_name = ''support_app'',
       create_session = (\<lambda>app user session. None),
       run = (\<lambda>user session message. Done)\<rparr>
      ''s2'' ''Tell me a random fact.'' []) = Returns PyNone
   \<and> result (run_coordinator
      \<lparr>app_name = ''routing_app'',
       create_session = (\<lambda>app user session. None),
       run = (\<lambda>user session message.
         Yield \<lparr>is_final_response = True,
                content = Some \<lparr>role = Some ''model'', parts = None, text_attr = None\<rparr>\<rparr>
           Done)\<rparr>
      ''s3'' ''Tell me a random fact.'' []) = Returns PyNone"
  by (simp add: run_coordinator_def run_support_coordinator_def run_request_no_events
      run_request_first_final)

section \<open>Properties of the chapter 1 configuration\<close>

lemma unclear_differs:
  "fst (booking_handler r out) \<noteq> fst (unclear_handler r' out')"
  "fst (info_handler r out) \<noteq> fst (unclear_handler r' out')"
  by (simp_all add: handler_defs Let_def fstring_def)

lemma unclear_not_bound:
  "unclear_handler \<noteq> booking_handler" "unclear_handler \<noteq> info_handler"
proof -
  show "unclear_handler \<noteq> booking_handler"
  proof
    assume "unclear_handler = booking_handler"
    then have "fst (booking_handler [] []) = fst (unclear_handler [] [])" by simp
    with unclear_differs(1) show False by blast
  qed
  show "unclear_handler \<noteq> info_handler"
  proof
    assume "unclear_handler = info_handler"
    then have "fst (info_handler [] []) = fst (unclear_handler [] [])" by simp
    with unclear_differs(2) show False by blast
  qed
qed

text \<open>
  Claim C10. In the chapter 1 configuration the coordinator has no tool of its own and
  exactly the sub-agents Booker and Info, in that order; Booker holds the tool around
  \<^verbatim>\<open>booking_handler\<close> and Info the tool around \<^verbatim>\<open>info_handler\<close>, and neither has
  sub-agents. So the functions bound in the configuration are \<^verbatim>\<open>booking_handler\<close> and
  \<^verbatim>\<open>info_handler\<close>; \<^verbatim>\<open>unclear_handler\<close> is not among them, and no bound tool,
  on any request, returns a string that \<^verbatim>\<open>unclear_handler\<close> returns on any request.
  What an agent can return is read here as what its bound tools return; the free text of
  the language model behind an agent is outside the two scripts.
\<close>

theorem unclear_handler_is_unreachable:
  "sub_agents root_agent = [booking_agent, info_agent]
   \<and> map name (sub_agents root_agent) = [''Booker'', ''Info'']
   \<and> tools root_agent = []
   \<and> tools booking_agent = [booking_tool] \<and> sub_agents booking_agent = []
   \<and> tools info_agent = [info_tool] \<and> sub_agents info_agent = []
   \<and> agents_of root_agent = [root_agent, booking_agent, info_agent]
   \<and> map func (tools_of root_agent) = [booking_handler, info_handler]
   \<and> unclear_handler \<notin> func ` set (tools_of root_agent)
   \<and> fst (unclear_handler r' out') \<notin> (\<lambda>t. fst (func t r out)) ` set (tools_of root_agent)"
  by (simp add: root_agent_def booking_agent_def info_agent_def tools_of_def
      booking_tool_def info_tool_def unclear_not_bound unclear_differs[symmetric])

end
